theory Spec2Isabelle
  imports Main
begin

section \<open>The task scheduler of src/utils/schedule.ts\<close>

text \<open>
  The class \<open>TaskScheduler\<close> keeps two JavaScript maps, \<open>tasks\<close> (the registry) and
  \<open>scheduledJobs\<close> (the timer set), and arms Node timers with \<open>setTimeout\<close>. The
  embedding is state passing: every method takes the scheduler and returns the updated
  one together with its result, an exception being the left injection of a sum. The
  state is returned in both cases, since a method that throws keeps the mutations it had
  already made.
\<close>

subsection \<open>Dates\<close>

text \<open>
  A JavaScript \<open>Date\<close> holds a time value: a whole number of milliseconds since the
  epoch, at most 8.64e15 in absolute value, or NaN, the invalid date
  (\<open>new Date(NaN)\<close>, \<open>new Date('no date')\<close>). \<open>new Date(t)\<close> clips a time value that is
  out of range to NaN.

  The clock is always valid: \<open>new Date()\<close> is the argument \<open>now\<close> of each operation, its
  time value. The clock readings inside one synchronous call are taken at the same
  instant.
\<close>

datatype date = Date int | InvalidDate

definition timeClip :: "int \<Rightarrow> date" where
  "timeClip t =
     (if - 8640000000000000 \<le> t \<and> t \<le> 8640000000000000 then Date t else InvalidDate)"

text \<open>\<open>getTime()\<close>, with \<open>None\<close> for NaN.\<close>

fun getTime :: "date \<Rightarrow> int option" where
  "getTime (Date t) = Some t"
| "getTime InvalidDate = None"

text \<open>
  The comparison \<open>date <= new Date()\<close> converts both sides to their time values; with
  NaN on the left it is false.
\<close>

fun date_le_now :: "date \<Rightarrow> int \<Rightarrow> bool" where
  "date_le_now (Date t) now = (t \<le> now)"
| "date_le_now InvalidDate now = False"

subsection \<open>Data model (src/types/taskTypes.ts)\<close>

text \<open>
  The exceptions the class throws are all \<open>Error\<close> objects that differ by their message;
  one constructor per message, and \<open>Thrown\<close> for any value thrown by foreign code (a task's
  callback, a cron \<open>next\<close> function).
\<close>

datatype error =
    DuplicateTask string      \<comment> \<open>\<open>Task ${taskName} already exists\<close>\<close>
  | InvalidSchedule           \<comment> \<open>\<open>Scheduled time must be in the future\<close>\<close>
  | TaskNotFound string       \<comment> \<open>\<open>Task ${taskName} not found\<close>\<close>
  | UnsupportedUnit string    \<comment> \<open>\<open>Unsupported interval unit: ${interval.unit}\<close>\<close>
  | InvalidInterval           \<comment> \<open>\<open>Invalid interval configuration\<close>\<close>
  | Thrown string

text \<open>
  \<open>Interval\<close> is a union of three object shapes, told apart at run time by the properties
  present. The unit is kept as the string the code switches on, and \<open>Malformed\<close> is an
  object with none of the three shapes: the type declaration excludes both an unknown
  unit and such an object, the code guards against each of them. The \<open>value\<close> of a
  recurring interval is a whole number. A \<open>next\<close> function reads the clock and returns a
  date or throws, as the one \<open>scheduleCron\<close> builds does; it does not call the scheduler.
\<close>

datatype interval =
    Recurring string int                          \<comment> \<open>\<open>{ unit, value }\<close>\<close>
  | Once date                                     \<comment> \<open>\<open>{ type: 'once', date }\<close>\<close>
  | Cron "int \<Rightarrow> error + date"                   \<comment> \<open>\<open>{ next }\<close>\<close>
  | Malformed

record schedule_options =
  otype :: "string option"
  retryOnError :: "bool option"
  retryDelay :: "int option"

datatype status = Scheduled | Paused

text \<open>
  A callback is foreign code, and it may call the scheduler it is registered with. What
  one run of it does to the scheduler is the sequence of methods it calls, and it ends
  by returning or by throwing: a callback is that script. A call in the script that
  throws keeps what it had done, as everywhere; if the callback does not catch the
  exception, the script ends there, in \<open>Raises\<close> with that exception.
\<close>

datatype outcome = Returns | Raises error

datatype callback = Callback (calls: "call list") (ending: outcome)
and call =
    CallScheduleTask string callback interval "schedule_options option"
  | CallScheduleCron string callback string "schedule_options option"
  | CallScheduleOnce string callback date
  | CallCancelTask string
  | CallPauseTask string
  | CallResumeTask string

record task =
  callback :: callback
  interval :: interval
  options :: schedule_options
  status :: status

text \<open>An entry of \<open>scheduledJobs\<close>: the timer handle and the date the timer was set for.\<close>

record job =
  id_job :: nat
  scheduledTime :: date

text \<open>
  The Node timer runtime: a pending timeout holds the delay it waits for and the closure
  \<open>() => this._executeTask(taskName, task)\<close>, that is the two captured values. Of the
  captured task object only \<open>callback\<close> and \<open>interval\<close> are ever read, and neither is
  ever assigned, so the capture is by value.
\<close>

record timeout =
  delay :: int
  timer_name :: string
  timer_task :: task

text \<open>
  The scheduler with its environment: the two maps of the class, the pending timeouts of
  the runtime with the next fresh handle, and what \<open>console.error\<close> has received.
\<close>

record scheduler =
  tasks :: "string \<rightharpoonup> task"
  scheduledJobs :: "string \<rightharpoonup> job"
  pending :: "nat \<rightharpoonup> timeout"
  next_handle :: nat
  console :: "(string \<times> error) list"

definition new_scheduler :: scheduler where
  "new_scheduler =
     \<lparr>tasks = Map.empty, scheduledJobs = Map.empty, pending = Map.empty,
      next_handle = 0, console = []\<rparr>"

definition no_options :: schedule_options where
  "no_options = \<lparr>otype = None, retryOnError = None, retryDelay = None\<rparr>"

subsection \<open>External collaborators\<close>

text \<open>
  The functions the class imports are parameters of the model: \<open>addMinutes\<close>, \<open>addHours\<close>
  and \<open>addDays\<close> of date-fns (\<open>addDays\<close> adds calendar days of the host's time zone, 23 or
  25 hours long across a change of offset), and \<open>parseExpression\<close> of cron-parser, here
  from the expression and the clock to the next date, or an exception.
\<close>

record collaborators =
  addMinutes :: "date \<Rightarrow> int \<Rightarrow> date"
  addHours :: "date \<Rightarrow> int \<Rightarrow> date"
  addDays :: "date \<Rightarrow> int \<Rightarrow> date"
  parseExpression :: "string \<Rightarrow> int \<Rightarrow> error + date"

text \<open>
  \<open>setTimeout(callback, after)\<close> of Node: a delay that is not a number from 1 to
  \<open>2^31 - 1\<close> (so also NaN, here \<open>None\<close>) is replaced by 1. The timer takes a fresh handle.
  \<open>clearTimeout\<close> drops a pending timeout.
\<close>

definition timer_delay :: "int option \<Rightarrow> int" where
  "timer_delay after =
     (case after of
        None \<Rightarrow> 1
      | Some a \<Rightarrow> if 1 \<le> a \<and> a \<le> 2147483647 then a else 1)"

definition setTimeout :: "scheduler \<Rightarrow> string \<Rightarrow> task \<Rightarrow> int option \<Rightarrow> nat \<times> scheduler" where
  "setTimeout s taskName t after =
     (next_handle s,
      s\<lparr>pending := (pending s)(next_handle s \<mapsto>
             \<lparr>delay = timer_delay after, timer_name = taskName, timer_task = t\<rparr>),
        next_handle := Suc (next_handle s)\<rparr>)"

definition clearTimeout :: "scheduler \<Rightarrow> nat \<Rightarrow> scheduler" where
  "clearTimeout s h = s\<lparr>pending := (pending s)(h := None)\<rparr>"

subsection \<open>The methods of TaskScheduler\<close>

definition calculateNextRun :: "collaborators \<Rightarrow> int \<Rightarrow> string \<Rightarrow> int \<Rightarrow> error + date" where
  "calculateNextRun env now unit val =
     (if unit = ''minutes'' then Inr (addMinutes env (Date now) val)
      else if unit = ''hours'' then Inr (addHours env (Date now) val)
      else if unit = ''days'' then Inr (addDays env (Date now) val)
      else Inl (UnsupportedUnit unit))"

text \<open>
  The last three statements of \<open>_scheduleNextRun\<close>, once \<open>nextRun\<close> is known:
  \<open>nextRun.getTime() - now.getTime()\<close> is NaN for the invalid date.
\<close>

definition arm :: "scheduler \<Rightarrow> int \<Rightarrow> string \<Rightarrow> task \<Rightarrow> date \<Rightarrow> scheduler" where
  "arm s now taskName t nextRun =
     (let after = (case getTime nextRun of None \<Rightarrow> None | Some x \<Rightarrow> Some (x - now));
          (h, s1) = setTimeout s taskName t after
      in s1\<lparr>scheduledJobs := (scheduledJobs s1)(taskName \<mapsto> \<lparr>id_job = h, scheduledTime = nextRun\<rparr>)\<rparr>)"

definition scheduleNextRun ::
  "collaborators \<Rightarrow> scheduler \<Rightarrow> int \<Rightarrow> string \<Rightarrow> (error + unit) \<times> scheduler" where
  "scheduleNextRun env s now taskName =
     (case tasks s taskName of
        None \<Rightarrow> (Inr (), s)
      | Some t \<Rightarrow>
          if status t = Paused then (Inr (), s)
          else (case interval t of
                  Cron nxt \<Rightarrow>
                    (case nxt now of
                       Inl e \<Rightarrow> (Inl e, s)
                     | Inr nextRun \<Rightarrow> (Inr (), arm s now taskName t nextRun))
                | Once d \<Rightarrow> (Inr (), arm s now taskName t d)
                | Recurring unit val \<Rightarrow>
                    (case calculateNextRun env now unit val of
                       Inl e \<Rightarrow> (Inl e, s)
                     | Inr nextRun \<Rightarrow> (Inr (), arm s now taskName t nextRun))
                | Malformed \<Rightarrow> (Inl InvalidInterval, s)))"

definition scheduleTask ::
  "collaborators \<Rightarrow> scheduler \<Rightarrow> int \<Rightarrow> string \<Rightarrow> callback \<Rightarrow> interval
     \<Rightarrow> schedule_options option \<Rightarrow> (error + string) \<times> scheduler" where
  "scheduleTask env s now taskName cb iv opts =
     (if tasks s taskName \<noteq> None then (Inl (DuplicateTask taskName), s)
      else
        let t = \<lparr>callback = cb, interval = iv,
                 options = (case opts of None \<Rightarrow> no_options | Some x \<Rightarrow> x),
                 status = Scheduled\<rparr>;
            s1 = s\<lparr>tasks := (tasks s)(taskName \<mapsto> t)\<rparr>
        in (case scheduleNextRun env s1 now taskName of
              (Inl e, s2) \<Rightarrow> (Inl e, s2)
            | (Inr u, s2) \<Rightarrow> (Inr taskName, s2)))"

text \<open>
  \<open>scheduleCron\<close> wraps the cron expression in a \<open>next\<close> function that parses it at each
  call.
\<close>

definition scheduleCron ::
  "collaborators \<Rightarrow> scheduler \<Rightarrow> int \<Rightarrow> string \<Rightarrow> callback \<Rightarrow> string
     \<Rightarrow> schedule_options option \<Rightarrow> (error + string) \<times> scheduler" where
  "scheduleCron env s now taskName cb cronExpression opts =
     scheduleTask env s now taskName cb (Cron (parseExpression env cronExpression))
       (Some ((case opts of None \<Rightarrow> no_options | Some x \<Rightarrow> x)\<lparr>otype := Some ''cron''\<rparr>))"

definition scheduleOnce ::
  "collaborators \<Rightarrow> scheduler \<Rightarrow> int \<Rightarrow> string \<Rightarrow> callback \<Rightarrow> date
     \<Rightarrow> (error + string) \<times> scheduler" where
  "scheduleOnce env s now taskName cb d =
     (if date_le_now d now then (Inl InvalidSchedule, s)
      else scheduleTask env s now taskName cb (Once d) None)"

definition cancelTask :: "scheduler \<Rightarrow> string \<Rightarrow> (error + unit) \<times> scheduler" where
  "cancelTask s taskName =
     (let s1 = (case scheduledJobs s taskName of
                  Some scheduledJob \<Rightarrow>
                    (clearTimeout s (id_job scheduledJob))
                      \<lparr>scheduledJobs := (scheduledJobs s)(taskName := None)\<rparr>
                | None \<Rightarrow> s)
      in (Inr (), s1\<lparr>tasks := (tasks s1)(taskName := None)\<rparr>))"

definition pauseTask :: "scheduler \<Rightarrow> string \<Rightarrow> (error + unit) \<times> scheduler" where
  "pauseTask s taskName =
     (case tasks s taskName of
        None \<Rightarrow> (Inl (TaskNotFound taskName), s)
      | Some t \<Rightarrow>
          cancelTask (s\<lparr>tasks := (tasks s)(taskName \<mapsto> t\<lparr>status := Paused\<rparr>)\<rparr>) taskName)"

definition resumeTask ::
  "collaborators \<Rightarrow> scheduler \<Rightarrow> int \<Rightarrow> string \<Rightarrow> (error + unit) \<times> scheduler" where
  "resumeTask env s now taskName =
     (case tasks s taskName of
        None \<Rightarrow> (Inl (TaskNotFound taskName), s)
      | Some t \<Rightarrow>
          if status t = Paused
          then scheduleNextRun env
                 (s\<lparr>tasks := (tasks s)(taskName \<mapsto> t\<lparr>status := Scheduled\<rparr>)\<rparr>) now taskName
          else (Inr (), s))"

definition getNextRunTime :: "scheduler \<Rightarrow> string \<Rightarrow> date option" where
  "getNextRunTime s taskName =
     (case scheduledJobs s taskName of
        None \<Rightarrow> None
      | Some scheduledJob \<Rightarrow> Some (scheduledTime scheduledJob))"

record task_status =
  name :: string
  status_of :: status
  nextRun :: "date option"

definition getTaskStatus :: "scheduler \<Rightarrow> string \<Rightarrow> task_status option" where
  "getTaskStatus s taskName =
     (case tasks s taskName of
        None \<Rightarrow> None
      | Some t \<Rightarrow>
          Some \<lparr>name = taskName, status_of = status t, nextRun = getNextRunTime s taskName\<rparr>)"

fun is_once :: "interval \<Rightarrow> bool" where
  "is_once (Once d) = True"
| "is_once iv = False"

text \<open>
  One run of a callback: the methods it calls, in order, on the scheduler as it is then.
  Whether a call threw shows in the ending of the script only.
\<close>

fun run_call :: "collaborators \<Rightarrow> int \<Rightarrow> scheduler \<Rightarrow> call \<Rightarrow> scheduler" where
  "run_call env now s (CallScheduleTask n cb iv opts) = snd (scheduleTask env s now n cb iv opts)"
| "run_call env now s (CallScheduleCron n cb ex opts) = snd (scheduleCron env s now n cb ex opts)"
| "run_call env now s (CallScheduleOnce n cb d) = snd (scheduleOnce env s now n cb d)"
| "run_call env now s (CallCancelTask n) = snd (cancelTask s n)"
| "run_call env now s (CallPauseTask n) = snd (pauseTask s n)"
| "run_call env now s (CallResumeTask n) = snd (resumeTask env s now n)"

definition run_calls :: "collaborators \<Rightarrow> int \<Rightarrow> scheduler \<Rightarrow> call list \<Rightarrow> scheduler" where
  "run_calls env now s cs = foldl (run_call env now) s cs"

text \<open>
  \<open>_executeTask\<close>: the whole body is inside \<open>try\<close>, so an exception of the callback, or of
  the re-arming, leaves the \<open>try\<close> block at that point and is written to the console.
  Nothing is rethrown: the method returns the state only.
\<close>

definition executeTask :: "collaborators \<Rightarrow> scheduler \<Rightarrow> int \<Rightarrow> string \<Rightarrow> task \<Rightarrow> scheduler" where
  "executeTask env s now taskName t =
     (let s0 = run_calls env now s (calls (callback t))
      in case ending (callback t) of
           Raises e \<Rightarrow> s0\<lparr>console := console s0 @ [(taskName, e)]\<rparr>
         | Returns \<Rightarrow>
             if is_once (interval t)
             then s0\<lparr>tasks := (tasks s0)(taskName := None),
                     scheduledJobs := (scheduledJobs s0)(taskName := None)\<rparr>
             else (case scheduleNextRun env s0 now taskName of
                     (Inl e, s1) \<Rightarrow> s1\<lparr>console := console s1 @ [(taskName, e)]\<rparr>
                   | (Inr u, s1) \<Rightarrow> s1))"

text \<open>
  The runtime fires a pending timeout: it leaves the pending set and its closure runs.
  A handle that is not pending fires nothing.
\<close>

definition fire :: "collaborators \<Rightarrow> scheduler \<Rightarrow> int \<Rightarrow> nat \<Rightarrow> scheduler" where
  "fire env s now h =
     (case pending s h of
        None \<Rightarrow> s
      | Some t \<Rightarrow> executeTask env (clearTimeout s h) now (timer_name t) (timer_task t))"

text \<open>
  The states a scheduler goes through with given collaborators: any sequence of calls
  and timer firings, the calls that callbacks make included.
\<close>

inductive reachable :: "collaborators \<Rightarrow> scheduler \<Rightarrow> bool" for env where
  r_new: "reachable env new_scheduler"
| r_scheduleTask: "reachable env s \<Longrightarrow> reachable env (snd (scheduleTask env s now n cb iv opts))"
| r_scheduleCron: "reachable env s \<Longrightarrow> reachable env (snd (scheduleCron env s now n cb ex opts))"
| r_scheduleOnce: "reachable env s \<Longrightarrow> reachable env (snd (scheduleOnce env s now n cb d))"
| r_cancelTask: "reachable env s \<Longrightarrow> reachable env (snd (cancelTask s n))"
| r_pauseTask: "reachable env s \<Longrightarrow> reachable env (snd (pauseTask s n))"
| r_resumeTask: "reachable env s \<Longrightarrow> reachable env (snd (resumeTask env s now n))"
| r_fire: "reachable env s \<Longrightarrow> reachable env (fire env s now h)"

subsection \<open>Invariant of the reachable states\<close>

text \<open>
  What every reachable state satisfies: a name with an entry in the timer set is
  registered, and no registered task is paused.
\<close>

definition consistent :: "scheduler \<Rightarrow> bool" where
  "consistent s \<longleftrightarrow>
     (\<forall>n. tasks s n = None \<longrightarrow> scheduledJobs s n = None) \<and>
     (\<forall>n t. tasks s n = Some t \<longrightarrow> status t = Scheduled)"

subsection \<open>Concrete collaborators, callbacks and schedulers\<close>

text \<open>
  date-fns on a host whose time zone is UTC: a minute, an hour and a day are 60000,
  3600000 and 86400000 milliseconds, and the result is a new \<open>Date\<close>.
\<close>

fun shift :: "int \<Rightarrow> date \<Rightarrow> int \<Rightarrow> date" where
  "shift ms (Date t) n = timeClip (t + n * ms)"
| "shift ms InvalidDate n = InvalidDate"

text \<open>A stand-in for the cron parser: every expression means the start of the next minute.\<close>

fun cron_stub :: "string \<Rightarrow> int \<Rightarrow> error + date" where
  "cron_stub ex now = Inr (Date ((now div 60000 + 1) * 60000))"

definition host_utc :: collaborators where
  "host_utc =
     \<lparr>addMinutes = shift 60000, addHours = shift 3600000, addDays = shift 86400000,
      parseExpression = cron_stub\<rparr>"

definition cb_returns :: callback where
  "cb_returns = Callback [] Returns"

definition cb_raises :: callback where
  "cb_raises = Callback [] (Raises (Thrown ''boom''))"

text \<open>
  A callback that cancels its own task and registers the name again, with a callback
  that throws.
\<close>

definition cb_reregisters :: callback where
  "cb_reregisters =
     Callback [CallCancelTask ''a'',
               CallScheduleTask ''a'' cb_raises (Recurring ''minutes'' 5) None] Returns"


text \<open>A fresh scheduler after \<open>scheduleTask('a', cb, { unit: 'minutes', value: 5 })\<close> at time 0.\<close>

definition s_recurring :: "callback \<Rightarrow> scheduler" where
  "s_recurring cb =
     snd (scheduleTask host_utc new_scheduler 0 ''a'' cb (Recurring ''minutes'' 5) None)"

text \<open>A fresh scheduler after \<open>scheduleOnce('a', cb, new Date(1000))\<close> at time 0.\<close>

definition s_once :: "callback \<Rightarrow> scheduler" where
  "s_once cb = snd (scheduleOnce host_utc new_scheduler 0 ''a'' cb (Date 1000))"

text \<open>
  A registry that holds a paused task with no timer. No sequence of calls leads to it
  (see \<open>reachable_never_paused\<close>).
\<close>

definition s_paused :: scheduler where
  "s_paused =
     \<lparr>tasks = [''a'' \<mapsto> \<lparr>callback = cb_returns, interval = Recurring ''minutes'' 5,
                          options = no_options, status = Paused\<rparr>],
      scheduledJobs = Map.empty, pending = Map.empty, next_handle = 1, console = []\<rparr>"



section \<open>Properties\<close>

subsection \<open>The invariant is kept by every method and by the firing of a timer\<close>

lemma consistent_new: "consistent new_scheduler"
  by (simp add: consistent_def new_scheduler_def)

lemma consistent_arm:
  assumes "consistent s" "tasks s n \<noteq> None"
  shows "consistent (arm s now n t d)"
  using assms
  by (auto simp: consistent_def arm_def setTimeout_def Let_def)

lemma scheduleNextRun_cases:
  "snd (scheduleNextRun env s now n) = s \<or>
   (tasks s n \<noteq> None \<and> (\<exists>t d. snd (scheduleNextRun env s now n) = arm s now n t d))"
  by (auto simp: scheduleNextRun_def split: option.splits interval.splits sum.splits)

lemma consistent_scheduleNextRun:
  assumes "consistent s"
  shows "consistent (snd (scheduleNextRun env s now n))"
proof -
  from scheduleNextRun_cases [of env s now n]
  show ?thesis
  proof (elim disjE conjE exE)
    assume "snd (scheduleNextRun env s now n) = s"
    with assms show ?thesis by simp
  next
    fix t d
    assume "tasks s n \<noteq> None" "snd (scheduleNextRun env s now n) = arm s now n t d"
    with assms show ?thesis by (simp add: consistent_arm)
  qed
qed

lemma snd_scheduleTask:
  "snd (scheduleTask env s now n cb iv opts) =
     (if tasks s n \<noteq> None then s
      else snd (scheduleNextRun env
        (s\<lparr>tasks := (tasks s)(n \<mapsto> \<lparr>callback = cb, interval = iv,
              options = (case opts of None \<Rightarrow> no_options | Some x \<Rightarrow> x),
              status = Scheduled\<rparr>)\<rparr>) now n))"
  by (simp add: scheduleTask_def Let_def split: prod.splits sum.splits)

lemma consistent_scheduleTask:
  assumes "consistent s"
  shows "consistent (snd (scheduleTask env s now n cb iv opts))"
proof (cases "tasks s n")
  case None
  let ?s1 = "s\<lparr>tasks := (tasks s)(n \<mapsto> \<lparr>callback = cb, interval = iv,
              options = (case opts of None \<Rightarrow> no_options | Some x \<Rightarrow> x),
              status = Scheduled\<rparr>)\<rparr>"
  from assms have "consistent ?s1" by (auto simp: consistent_def)
  then have "consistent (snd (scheduleNextRun env ?s1 now n))"
    by (rule consistent_scheduleNextRun)
  with None show ?thesis by (simp add: snd_scheduleTask)
next
  case (Some t)
  with assms show ?thesis by (simp add: snd_scheduleTask)
qed

lemma consistent_scheduleCron:
  "consistent s \<Longrightarrow> consistent (snd (scheduleCron env s now n cb ex opts))"
  by (simp add: scheduleCron_def consistent_scheduleTask)

lemma consistent_scheduleOnce:
  "consistent s \<Longrightarrow> consistent (snd (scheduleOnce env s now n cb d))"
  by (simp add: scheduleOnce_def consistent_scheduleTask)

lemma consistent_cancelTask: "consistent s \<Longrightarrow> consistent (snd (cancelTask s n))"
  by (auto simp: consistent_def cancelTask_def clearTimeout_def Let_def
      split: option.splits if_splits)

lemma consistent_pauseTask: "consistent s \<Longrightarrow> consistent (snd (pauseTask s n))"
  by (auto simp: consistent_def pauseTask_def cancelTask_def clearTimeout_def Let_def
      split: option.splits if_splits)

lemma consistent_resumeTask: "consistent s \<Longrightarrow> consistent (snd (resumeTask env s now n))"
  by (auto simp: consistent_def resumeTask_def split: option.splits)

lemma consistent_clearTimeout: "consistent s \<Longrightarrow> consistent (clearTimeout s h)"
  by (simp add: consistent_def clearTimeout_def)

lemma consistent_run_call: "consistent s \<Longrightarrow> consistent (run_call env now s c)"
  by (cases c)
     (simp_all add: consistent_scheduleTask consistent_scheduleCron consistent_scheduleOnce
        consistent_cancelTask consistent_pauseTask consistent_resumeTask)

lemma consistent_run_calls: "consistent s \<Longrightarrow> consistent (run_calls env now s cs)"
  unfolding run_calls_def
  by (induction cs arbitrary: s) (simp_all add: consistent_run_call)

lemma consistent_executeTask:
  assumes "consistent s"
  shows "consistent (executeTask env s now n t)"
proof -
  let ?s0 = "run_calls env now s (calls (callback t))"
  from assms have c0: "consistent ?s0" by (rule consistent_run_calls)
  show ?thesis
  proof (cases "ending (callback t)")
    case Returns
    show ?thesis
    proof (cases "is_once (interval t)")
      case True
      with Returns c0 show ?thesis
        by (auto simp: executeTask_def consistent_def Let_def)
    next
      case False
      from c0 have w: "consistent (snd (scheduleNextRun env ?s0 now n))"
        by (rule consistent_scheduleNextRun)
      then have "consistent ((snd (scheduleNextRun env ?s0 now n))\<lparr>console := c\<rparr>)" for c
        by (simp add: consistent_def)
      with w Returns False show ?thesis
        by (cases "scheduleNextRun env ?s0 now n")
           (auto simp: executeTask_def Let_def split: sum.splits)
    qed
  next
    case (Raises e)
    with c0 show ?thesis by (simp add: executeTask_def consistent_def Let_def)
  qed
qed

lemma consistent_fire: "consistent s \<Longrightarrow> consistent (fire env s now h)"
  by (auto simp: fire_def split: option.splits
      intro: consistent_executeTask consistent_clearTimeout)

lemma reachable_consistent: "reachable env s \<Longrightarrow> consistent s"
  by (induction rule: reachable.induct)
     (simp_all add: consistent_new consistent_scheduleTask consistent_scheduleCron
        consistent_scheduleOnce consistent_cancelTask consistent_pauseTask
        consistent_resumeTask consistent_fire)

text \<open>In particular the registry of a reachable state never holds a paused task.\<close>

lemma reachable_never_paused:
  "reachable env s \<Longrightarrow> tasks s n = Some t \<Longrightarrow> status t = Scheduled"
  using reachable_consistent [of env s] by (simp add: consistent_def)

subsection \<open>The concrete schedulers, evaluated\<close>

lemma host_utc_sel:
  "addMinutes host_utc = shift 60000"
  "addHours host_utc = shift 3600000"
  "addDays host_utc = shift 86400000"
  "parseExpression host_utc = cron_stub"
  by (simp_all add: host_utc_def)

lemma s_recurring_eq:
  "s_recurring cb =
     \<lparr>tasks = [''a'' \<mapsto> \<lparr>callback = cb, interval = Recurring ''minutes'' 5,
                          options = no_options, status = Scheduled\<rparr>],
      scheduledJobs = [''a'' \<mapsto> \<lparr>id_job = 0, scheduledTime = Date 300000\<rparr>],
      pending = [0 \<mapsto> \<lparr>delay = 300000, timer_name = ''a'',
                   timer_task = \<lparr>callback = cb, interval = Recurring ''minutes'' 5,
                          options = no_options, status = Scheduled\<rparr>\<rparr>],
      next_handle = 1, console = []\<rparr>"
  by (simp add: s_recurring_def scheduleTask_def scheduleNextRun_def calculateNextRun_def
      arm_def setTimeout_def timer_delay_def timeClip_def host_utc_sel new_scheduler_def Let_def)

lemma s_once_eq:
  "s_once cb =
     \<lparr>tasks = [''a'' \<mapsto> \<lparr>callback = cb, interval = Once (Date 1000),
                          options = no_options, status = Scheduled\<rparr>],
      scheduledJobs = [''a'' \<mapsto> \<lparr>id_job = 0, scheduledTime = Date 1000\<rparr>],
      pending = [0 \<mapsto> \<lparr>delay = 1000, timer_name = ''a'',
                   timer_task = \<lparr>callback = cb, interval = Once (Date 1000),
                          options = no_options, status = Scheduled\<rparr>\<rparr>],
      next_handle = 1, console = []\<rparr>"
  by (simp add: s_once_def scheduleOnce_def scheduleTask_def scheduleNextRun_def
      arm_def setTimeout_def timer_delay_def new_scheduler_def Let_def)

lemma cb_sel:
  "calls cb_returns = []" "ending cb_returns = Returns"
  "calls cb_raises = []" "ending cb_raises = Raises (Thrown ''boom'')"
  "calls cb_reregisters = [CallCancelTask ''a'',
      CallScheduleTask ''a'' cb_raises (Recurring ''minutes'' 5) None]"
  "ending cb_reregisters = Returns"
  by (simp_all add: cb_returns_def cb_raises_def cb_reregisters_def)

subsection \<open>Arming\<close>




text \<open>
  What \<open>pauseTask\<close> does to any registered task: it ends in \<open>cancelTask\<close>, which deletes the
  registry entry that was just marked as paused.
\<close>

lemma pauseTask_registered:
  assumes "tasks s n = Some t"
  shows "fst (pauseTask s n) = Inr ()"
    and "tasks (snd (pauseTask s n)) n = None"
    and "getTaskStatus (snd (pauseTask s n)) n = None"
  using assms
  by (simp_all add: pauseTask_def cancelTask_def clearTimeout_def getTaskStatus_def Let_def
      split: option.splits)

text \<open>
  What \<open>_executeTask\<close> does when the callback throws: the exception is written to the
  console once, and after the calls of the callback itself neither map nor the timers
  change.
\<close>

lemma fire_raises:
  assumes "pending s h = Some tm" "ending (callback (timer_task tm)) = Raises e"
  shows "fire env s now h =
           (let s0 = run_calls env now (clearTimeout s h) (calls (callback (timer_task tm)))
            in s0\<lparr>console := console s0 @ [(timer_name tm, e)]\<rparr>)"
  using assms by (simp add: fire_def executeTask_def Let_def)

text \<open>
  The guard of \<open>scheduleOnce\<close> on valid dates: a date at or before the clock is refused
  and nothing changes, a later one is registered by \<open>scheduleTask\<close>.
\<close>

lemma scheduleOnce_valid:
  "(t \<le> now \<longrightarrow> scheduleOnce env s now n cb (Date t) = (Inl InvalidSchedule, s)) \<and>
   (now < t \<longrightarrow> scheduleOnce env s now n cb (Date t)
                  = scheduleTask env s now n cb (Once (Date t)) None)"
  by (simp add: scheduleOnce_def)





section \<open>The claims\<close>

text \<open>
  Claim C1. If the callback of a registered recurring (or cron) task raises when the
  dispatcher fires, the scheduler does not crash, the error is reported exactly once,
  tagged with the task's name, and the task is re-armed: a new timer entry with a new
  fire time exists after the dispatch.

  The code does not re-arm. The task \<open>a\<close> runs every 5 minutes and its callback throws;
  its timer (handle 0) fires at 300000. The exception is reported once under the name
  \<open>a\<close>, but afterwards no timeout is pending, no handle has been taken, and the job entry
  is still the one of the timer that has fired: the task never runs again.
\<close>

theorem executeTask_raise_not_rearmed:
  "pending (s_recurring cb_raises) 0 \<noteq> None \<and>
   console (fire host_utc (s_recurring cb_raises) 300000 0) = [(''a'', Thrown ''boom'')] \<and>
   pending (fire host_utc (s_recurring cb_raises) 300000 0) = Map.empty \<and>
   next_handle (fire host_utc (s_recurring cb_raises) 300000 0)
     = next_handle (s_recurring cb_raises) \<and>
   scheduledJobs (fire host_utc (s_recurring cb_raises) 300000 0) ''a''
     = Some \<lparr>id_job = 0, scheduledTime = Date 300000\<rparr> \<and>
   getTaskStatus (fire host_utc (s_recurring cb_raises) 300000 0) ''a''
     = Some \<lparr>name = ''a'', status_of = Scheduled, nextRun = Some (Date 300000)\<rparr>"
  by (simp add: s_recurring_eq fire_def executeTask_def run_calls_def cb_sel clearTimeout_def
      getTaskStatus_def getNextRunTime_def)

text \<open>
  Claim C2. After \<open>pauseTask\<close> of a task with status \<open>scheduled\<close> the registry entry is
  kept with status \<open>paused\<close>, only the timer is disarmed, and \<open>getTaskStatus\<close> returns
  \<open>{name, status: 'paused', nextRun: null}\<close> rather than null.

  The code returns null: \<open>pauseTask\<close> succeeds on the scheduled task \<open>a\<close> and the task is
  gone from the registry.
\<close>

theorem pauseTask_deletes_task:
  "getTaskStatus (s_recurring cb_returns) ''a''
     = Some \<lparr>name = ''a'', status_of = Scheduled, nextRun = Some (Date 300000)\<rparr> \<and>
   fst (pauseTask (s_recurring cb_returns) ''a'') = Inr () \<and>
   tasks (snd (pauseTask (s_recurring cb_returns) ''a'')) ''a'' = None \<and>
   getTaskStatus (snd (pauseTask (s_recurring cb_returns) ''a'')) ''a'' = None"
  by (simp add: s_recurring_eq pauseTask_def cancelTask_def clearTimeout_def
      getTaskStatus_def getNextRunTime_def)

text \<open>
  Claim C3. After the timer of a one-time task has fired and the dispatcher has run, the
  task is removed from the registry and from the timer set, whether its callback
  returned or raised, and \<open>getTaskStatus\<close> returns null.

  The code keeps the task when the callback raises. The one-time task \<open>a\<close> is due at 1000
  and its callback throws; after the firing the task is still registered, its job entry
  is still there, and \<open>getTaskStatus\<close> reports it as scheduled for 1000.
\<close>

theorem executeTask_raise_once_not_retired:
  "pending (s_once cb_raises) 0 \<noteq> None \<and>
   tasks (fire host_utc (s_once cb_raises) 1000 0) ''a'' \<noteq> None \<and>
   scheduledJobs (fire host_utc (s_once cb_raises) 1000 0) ''a'' \<noteq> None \<and>
   getTaskStatus (fire host_utc (s_once cb_raises) 1000 0) ''a''
     = Some \<lparr>name = ''a'', status_of = Scheduled, nextRun = Some (Date 1000)\<rparr> \<and>
   getTaskStatus (fire host_utc (s_once cb_returns) 1000 0) ''a'' = None"
  by (simp add: s_once_eq fire_def executeTask_def run_calls_def cb_sel clearTimeout_def
      getTaskStatus_def getNextRunTime_def)

text \<open>
  Claim C4. For a recurring task that was paused with \<open>pauseTask\<close>, \<open>resumeTask\<close> succeeds
  (no task-not-found error), sets the status back to \<open>scheduled\<close> and re-arms the task
  from the time of the call.

  The code throws. After \<open>pauseTask\<close> of the recurring task \<open>a\<close>, \<open>resumeTask\<close> fails with
  \<open>Task a not found\<close> and arms nothing.
\<close>

theorem resumeTask_after_pause_not_found:
  "fst (pauseTask (s_recurring cb_returns) ''a'') = Inr () \<and>
   fst (resumeTask host_utc (snd (pauseTask (s_recurring cb_returns) ''a'')) 900000 ''a'')
     = Inl (TaskNotFound ''a'') \<and>
   pending (snd (resumeTask host_utc (snd (pauseTask (s_recurring cb_returns) ''a'')) 900000 ''a''))
     = Map.empty \<and>
   getTaskStatus
     (snd (resumeTask host_utc (snd (pauseTask (s_recurring cb_returns) ''a'')) 900000 ''a''))
     ''a'' = None"
  by (simp add: s_recurring_eq pauseTask_def resumeTask_def cancelTask_def clearTimeout_def
      getTaskStatus_def)

text \<open>
  Claim C5. \<open>pauseTask\<close> is idempotent: on a task that is already paused it does not raise
  and leaves the state unchanged.

  The code throws at the second call: after \<open>pauseTask\<close> of the task \<open>a\<close>, a second
  \<open>pauseTask\<close> fails with \<open>Task a not found\<close>. And on a registry that does hold a
  paused task (\<open>s_paused\<close>), \<open>pauseTask\<close> returns but deletes the task.
\<close>

theorem pauseTask_twice_not_found:
  "fst (pauseTask (s_recurring cb_returns) ''a'') = Inr () \<and>
   fst (pauseTask (snd (pauseTask (s_recurring cb_returns) ''a'')) ''a'')
     = Inl (TaskNotFound ''a'') \<and>
   tasks s_paused ''a'' \<noteq> None \<and>
   fst (pauseTask s_paused ''a'') = Inr () \<and>
   tasks (snd (pauseTask s_paused ''a'')) ''a'' = None"
  by (simp add: s_recurring_eq s_paused_def pauseTask_def cancelTask_def clearTimeout_def)

text \<open>
  Claim C6, as amended. In a state where the task name is already registered, every
  registration under that name fails and leaves the whole state as it was (so the
  original task's definition, status and armed timer). The error is the duplicate-task
  error, with one exception: \<open>scheduleOnce\<close> with a valid date that is not after the
  current time fails with the invalid-schedule error, since it tests the date before it
  looks at the name. (With the invalid date the test is false, and the error is the
  duplicate-task error.)
\<close>

theorem duplicate_rejected:
  assumes "tasks s n \<noteq> None"
  shows "scheduleTask env s now n cb iv opts = (Inl (DuplicateTask n), s) \<and>
         scheduleCron env s now n cb ex opts = (Inl (DuplicateTask n), s) \<and>
         scheduleOnce env s now n cb d
           = (Inl (case d of
                     Date t \<Rightarrow> if t \<le> now then InvalidSchedule else DuplicateTask n
                   | InvalidDate \<Rightarrow> DuplicateTask n), s)"
  using assms
  by (cases d) (simp_all add: scheduleTask_def scheduleCron_def scheduleOnce_def)

text \<open>The amended claim at the name \<open>a\<close>, registered in \<open>s_recurring\<close>.\<close>

theorem duplicate_rejected_witness:
  "tasks (s_recurring cb_returns) ''a'' \<noteq> None \<and>
   scheduleTask host_utc (s_recurring cb_returns) 7 ''a'' cb_raises (Once (Date 1000)) None
     = (Inl (DuplicateTask ''a''), s_recurring cb_returns) \<and>
   scheduleCron host_utc (s_recurring cb_returns) 7 ''a'' cb_raises ''* * * * *'' None
     = (Inl (DuplicateTask ''a''), s_recurring cb_returns) \<and>
   scheduleOnce host_utc (s_recurring cb_returns) 7 ''a'' cb_raises (Date 1000)
     = (Inl (DuplicateTask ''a''), s_recurring cb_returns) \<and>
   scheduleOnce host_utc (s_recurring cb_returns) 7 ''a'' cb_raises (Date 7)
     = (Inl InvalidSchedule, s_recurring cb_returns) \<and>
   scheduleOnce host_utc (s_recurring cb_returns) 7 ''a'' cb_raises InvalidDate
     = (Inl (DuplicateTask ''a''), s_recurring cb_returns)"
proof -
  have r: "tasks (s_recurring cb_returns) ''a'' \<noteq> None"
    by (simp add: s_recurring_eq)
  show ?thesis
    using r
      duplicate_rejected [OF r, of host_utc 7 cb_raises "Once (Date 1000)" None
        "''* * * * *''" "Date 1000"]
      duplicate_rejected [OF r, of host_utc 7 cb_raises "Once (Date 1000)" None
        "''* * * * *''" "Date 7"]
      duplicate_rejected [OF r, of host_utc 7 cb_raises "Once (Date 1000)" None
        "''* * * * *''" InvalidDate]
    by simp
qed

text \<open>
  The claim as it was stated fails for a one-time registration with a date in the past:
  the name \<open>a\<close> is registered, and \<open>scheduleOnce\<close> at time 1000 for the date 500 fails
  with the invalid-schedule error, not with the duplicate-task error.
\<close>

theorem duplicate_once_past_counterexample:
  "tasks (s_recurring cb_returns) ''a'' \<noteq> None \<and>
   fst (scheduleOnce host_utc (s_recurring cb_returns) 1000 ''a'' cb_returns (Date 500))
     = Inl InvalidSchedule \<and>
   fst (scheduleOnce host_utc (s_recurring cb_returns) 1000 ''a'' cb_returns (Date 500))
     \<noteq> Inl (DuplicateTask ''a'')"
  by (simp add: s_recurring_eq scheduleOnce_def)

text \<open>
  Claim C7. For every date that is not strictly after the current time, \<open>scheduleOnce\<close>
  fails with the invalid-schedule error, no task is inserted and no timer is armed; for
  every date strictly after the current time it is \<open>scheduleTask\<close> with the one-time
  interval of that date.

  The code accepts the invalid date, which is not after the current time: the guard
  \<open>date <= new Date()\<close> is false for it. \<open>scheduleOnce('a', cb, new Date(NaN))\<close> at time
  1000 returns the name; the task is registered with the invalid date as its next run,
  and its timer is set with the delay NaN, which the runtime takes as 1 millisecond.
  On valid dates the guard does what the claim says (\<open>scheduleOnce_valid\<close>): at time 1000
  the date 1000 is refused and the date 1001 is registered.
\<close>

theorem scheduleOnce_invalid_date_accepted:
  "fst (scheduleOnce host_utc new_scheduler 1000 ''a'' cb_returns InvalidDate) = Inr ''a'' \<and>
   getTaskStatus (snd (scheduleOnce host_utc new_scheduler 1000 ''a'' cb_returns InvalidDate)) ''a''
     = Some \<lparr>name = ''a'', status_of = Scheduled, nextRun = Some InvalidDate\<rparr> \<and>
   pending (snd (scheduleOnce host_utc new_scheduler 1000 ''a'' cb_returns InvalidDate)) 0
     = Some \<lparr>delay = 1, timer_name = ''a'',
             timer_task = \<lparr>callback = cb_returns, interval = Once InvalidDate,
                            options = no_options, status = Scheduled\<rparr>\<rparr> \<and>
   scheduleOnce host_utc new_scheduler 1000 ''a'' cb_returns (Date 1000)
     = (Inl InvalidSchedule, new_scheduler) \<and>
   fst (scheduleOnce host_utc new_scheduler 1000 ''a'' cb_returns (Date 1001)) = Inr ''a''"
  by (simp add: scheduleOnce_def scheduleTask_def scheduleNextRun_def arm_def setTimeout_def
      timer_delay_def getTaskStatus_def getNextRunTime_def new_scheduler_def Let_def)










end
